theory Spec2Isabelle
  imports Main
begin

section \<open>Component placeholder nodes of create-component.js\<close>

text \<open>
  A shallow embedding of \<^verbatim>\<open>src/core/vdom/create-component.js\<close>: the four
  lifecycle hooks of a component placeholder node, the installation of these hooks
  into a node's data bag, the v-model transform and the placeholder builder
  \<^verbatim>\<open>createComponent\<close>.

  Objects that the code mutates and shares (placeholder nodes, component instances)
  live in explicit stores, addressed by references. Calls into modules that are not
  part of this file are recorded, in order, in a trace of events.
\<close>

subsection \<open>Values\<close>

type_synonym fref = nat \<comment> \<open>identity of a function value\<close>
type_synonym iref = nat \<comment> \<open>reference to a component instance\<close>
type_synonym vref = nat \<comment> \<open>reference to a placeholder node\<close>

datatype jsval = JUndefined | JNull | JBool bool | JNum int | JStr string | JRef nat

text \<open>A listener entry of \<^verbatim>\<open>data.on\<close>: \<^verbatim>\<open>Function | Array<Function>\<close>.\<close>

datatype listener = Single fref | Many "fref list"

type_synonym listeners_t = "(string \<rightharpoonup> listener) option"
type_synonym props_t = "(string \<rightharpoonup> jsval) option"

datatype hookname = Init | Prepatch | Insert | Destroy

text \<open>
  A callback stored in \<^verbatim>\<open>data.hook\<close>. \<open>DefaultHook k\<close> is the function
  \<^verbatim>\<open>componentVNodeHooks[k]\<close>; \<open>UserHook n m\<close> is a function supplied from outside,
  with identity \<open>n\<close>, whose property \<^verbatim>\<open>_merged\<close> is truthy iff \<open>m\<close>;
  \<open>MergedHook f1 f2\<close> is the closure that \<^verbatim>\<open>mergeHook(f1, f2)\<close> returns.
\<close>

datatype hookfn = DefaultHook hookname | UserHook nat bool | MergedHook hookfn hookfn

record model_desc =
  m_value :: jsval
  m_callback :: fref

record inline_template =
  render :: fref
  staticRenderFns :: "fref list"

text \<open>
  \<^verbatim>\<open>VNodeData\<close>, with the fields this file reads or writes; \<open>other\<close> holds every
  remaining entry of the bag (key, class, style, directives, ...).
\<close>

record vnodedata =
  attrs :: props_t
  props :: props_t
  on :: listeners_t
  nativeOn :: listeners_t
  hook :: "(string \<rightharpoonup> hookfn) option"
  keepAlive :: bool
  model :: "model_desc option"
  slot :: "string option"
  inlineTemplate :: "inline_template option"
  other :: "(string \<times> jsval) list"

text \<open>The object literal \<^verbatim>\<open>{}\<close> as a data bag.\<close>

definition empty_data :: vnodedata where
  "empty_data = \<lparr> attrs = None, props = None, on = None, nativeOn = None, hook = None,
     keepAlive = False, model = None, slot = None, inlineTemplate = None, other = [] \<rparr>"

record model_options =
  mo_prop :: "string option"
  mo_event :: "string option"

text \<open>
  \<^verbatim>\<open>Ctor.options\<close>. \<open>functional\<close> and \<open>abstract\<close> say whether the option is
  \<^verbatim>\<open>=== true\<close> (the test \<^verbatim>\<open>isTrue\<close>).
\<close>

record ctor_options =
  o_name :: "string option"
  o_model :: "model_options option"
  functional :: bool
  abstract :: bool

text \<open>A function value used as a component reference: a constructor has a \<open>cid\<close>,
  an async factory has none.\<close>

record fn =
  fid :: fref
  cid :: "nat option"
  options :: ctor_options

record component_options =
  Ctor :: fn
  propsData :: props_t
  listeners :: listeners_t
  co_tag :: "string option"
  co_children :: "vref list option"

record vnode =
  tag :: "string option"
  data :: vnodedata
  children :: "vref list option"
  vtext :: "string option"
  elm :: "nat option"
  vcontext :: iref
  componentOptions :: "component_options option"
  asyncFactory :: "fn option"
  componentInstance :: "iref option"

text \<open>A component instance: the flags \<^verbatim>\<open>_isMounted\<close> and \<^verbatim>\<open>_isDestroyed\<close>.\<close>

record component =
  isMounted :: bool
  isDestroyed :: bool

subsection \<open>Hook installation\<close>

text \<open>\<^verbatim>\<open>hooksToMerge = Object.keys(componentVNodeHooks)\<close>, in the order of the object literal.\<close>

definition hooksToMerge :: "hookname list" where
  "hooksToMerge = [Init, Prepatch, Insert, Destroy]"

fun key :: "hookname \<Rightarrow> string" where
  "key Init = ''init''"
| "key Prepatch = ''prepatch''"
| "key Insert = ''insert''"
| "key Destroy = ''destroy''"

text \<open>Truthiness of the property \<^verbatim>\<open>_merged\<close> of a callback.\<close>

fun is_merged :: "hookfn \<Rightarrow> bool" where
  "is_merged (DefaultHook k) = False"
| "is_merged (UserHook n m) = m"
| "is_merged (MergedHook f1 f2) = True"

definition mergeHook :: "hookfn \<Rightarrow> hookfn \<Rightarrow> hookfn" where
  "mergeHook f1 f2 = MergedHook f1 f2"

text \<open>The body of the \<^verbatim>\<open>for\<close> loop of \<^verbatim>\<open>installComponentHooks\<close>, over the
  remaining keys.\<close>

fun installLoop :: "hookname list \<Rightarrow> (string \<rightharpoonup> hookfn) \<Rightarrow> (string \<rightharpoonup> hookfn)" where
  "installLoop [] hooks = hooks"
| "installLoop (k # ks) hooks =
     (let existing = hooks (key k);
          toMerge = DefaultHook k
      in installLoop ks
           (if existing \<noteq> Some toMerge \<and>
               \<not> (case existing of None \<Rightarrow> False | Some e \<Rightarrow> is_merged e)
            then hooks(key k \<mapsto>
                   (case existing of Some e \<Rightarrow> mergeHook toMerge e | None \<Rightarrow> toMerge))
            else hooks))"

definition installComponentHooks :: "vnodedata \<Rightarrow> vnodedata" where
  "installComponentHooks d =
     d\<lparr>hook := Some (installLoop hooksToMerge
                       (case hook d of None \<Rightarrow> Map.empty | Some h \<Rightarrow> h))\<rparr>"

subsection \<open>The v-model transform\<close>

datatype error = TypeError

text \<open>JavaScript truthiness of an optional string: \<^verbatim>\<open>undefined\<close> and \<^verbatim>\<open>''\<close> are falsy.\<close>

definition truthy :: "string option \<Rightarrow> bool" where
  "truthy s = (case s of None \<Rightarrow> False | Some x \<Rightarrow> x \<noteq> [])"

text \<open>\<^verbatim>\<open>a || b\<close> for an optional string \<open>a\<close> and a string \<open>b\<close>.\<close>

definition or_else :: "string option \<Rightarrow> string \<Rightarrow> string" where
  "or_else a b = (case a of None \<Rightarrow> b | Some x \<Rightarrow> if x = [] then b else x)"

text \<open>\<^verbatim>\<open>[callback].concat(existing)\<close>\<close>

fun concat_listener :: "fref \<Rightarrow> listener \<Rightarrow> listener" where
  "concat_listener callback (Single g) = Many [callback, g]"
| "concat_listener callback (Many gs) = Many (callback # gs)"

definition transformModel :: "ctor_options \<Rightarrow> vnodedata \<Rightarrow> error + vnodedata" where
  "transformModel opts d =
     (let prop = or_else (case o_model opts of None \<Rightarrow> None | Some mo \<Rightarrow> mo_prop mo)
                    ''value'';
          event = or_else (case o_model opts of None \<Rightarrow> None | Some mo \<Rightarrow> mo_event mo)
                    ''input''
      in case model d of
           None \<Rightarrow> Inl TypeError
         | Some m \<Rightarrow>
             (let attrs1 = (case attrs d of None \<Rightarrow> Map.empty | Some a \<Rightarrow> a)(prop \<mapsto> m_value m);
                  on0 = (case on d of None \<Rightarrow> Map.empty | Some l \<Rightarrow> l);
                  existing = on0 event;
                  callback = m_callback m;
                  on1 = (case existing of
                           Some ex \<Rightarrow>
                             if (case ex of Many gs \<Rightarrow> callback \<notin> set gs
                                 | Single g \<Rightarrow> g \<noteq> callback)
                             then on0(event \<mapsto> concat_listener callback ex)
                             else on0
                         | None \<Rightarrow> on0(event \<mapsto> Single callback))
              in Inr (d\<lparr>attrs := Some attrs1, on := Some on1\<rparr>)))"

subsection \<open>The placeholder builder\<close>

text \<open>A component reference, as \<^verbatim>\<open>createComponent\<close> receives it: \<^verbatim>\<open>undefined\<close>,
  \<^verbatim>\<open>null\<close>, an object (a plain definition), a function, or a primitive.\<close>

datatype cref = CUndefined | CNull | CObject nat | CFunction fn
  | CBool bool | CNum int | CStr string

definition isUndef :: "cref \<Rightarrow> bool" where
  "isUndef c = (c = CUndefined \<or> c = CNull)"

text \<open>Decimal digits of a number, for template strings.\<close>

fun show_nat :: "nat \<Rightarrow> string" where
  "show_nat n =
     (if n < 10 then [char_of (48 + n)]
      else show_nat (n div 10) @ [char_of (48 + n mod 10)])"

definition show_int :: "int \<Rightarrow> string" where
  "show_int i = (if i < 0 then ''-'' @ show_nat (nat (- i)) else show_nat (nat i))"

text \<open>\<^verbatim>\<open>String(Ctor)\<close>. The builder stringifies a reference only when it is not a
  function; the source text of a function is not modelled.\<close>

fun String :: "cref \<Rightarrow> string" where
  "String CUndefined = ''undefined''"
| "String CNull = ''null''"
| "String (CObject ob) = ''[object Object]''"
| "String (CFunction F) = []"
| "String (CBool b) = (if b then ''true'' else ''false'')"
| "String (CNum i) = show_int i"
| "String (CStr s) = s"

text \<open>
  The modules and globals \<^verbatim>\<open>createComponent\<close> uses and this file does not define,
  taken as parameters:
  \<^item> \<open>production\<close>: \<^verbatim>\<open>process.env.NODE_ENV === 'production'\<close>;
  \<^item> \<open>weex\<close>: the global \<^verbatim>\<open>__WEEX__\<close>;
  \<^item> \<open>base c\<close>: \<^verbatim>\<open>c.$options._base\<close>, the base constructor of context \<open>c\<close>;
  \<^item> \<open>Vue_extend b ob\<close>: \<^verbatim>\<open>b.extend(ob)\<close>;
  \<^item> \<open>resolveAsyncComponent f b\<close>: a constructor, or \<open>None\<close> for \<^verbatim>\<open>undefined\<close>;
  \<^item> \<open>resolveConstructorOptions C\<close>: the value of \<^verbatim>\<open>C.options\<close> after the call;
  \<^item> \<open>extractPropsFromVNodeData\<close> and \<open>isRecyclableComponent\<close>.
\<close>

record env =
  production :: bool
  weex :: bool
  base :: "iref \<Rightarrow> nat"
  Vue_extend :: "nat \<Rightarrow> nat \<Rightarrow> fn"
  resolveAsyncComponent :: "fn \<Rightarrow> nat \<Rightarrow> fn option"
  resolveConstructorOptions :: "fn \<Rightarrow> ctor_options"
  extractPropsFromVNodeData :: "vnodedata \<Rightarrow> fn \<Rightarrow> string option \<Rightarrow> props_t"
  isRecyclableComponent :: "vnode \<Rightarrow> bool"

text \<open>
  What \<^verbatim>\<open>createComponent\<close> returns. The nodes that other modules build are kept as
  the call that builds them: \<open>AsyncPlaceholder\<close> is
  \<^verbatim>\<open>createAsyncPlaceholder(asyncFactory, data, context, children, tag)\<close>, \<open>Functional\<close> is
  \<^verbatim>\<open>createFunctionalComponent(Ctor, propsData, data, context, children)\<close> and
  \<open>RecyclableTemplate\<close> is \<^verbatim>\<open>renderRecyclableComponentTemplate(vnode)\<close>.
\<close>

datatype node_result =
    NoNode
  | AsyncPlaceholder fn "vnodedata option" iref "vref list option" "string option"
  | Functional fn props_t vnodedata iref "vref list option"
  | ComponentNode vnode
  | RecyclableTemplate vnode

text \<open>Calls of \<^verbatim>\<open>createComponent\<close> into other modules that act on shared state.\<close>

datatype call =
    Extend nat nat
  | Warn string iref
  | ResolveAsyncComponent fn nat
  | ResolveConstructorOptions fn

text \<open>
  The outcome of one call of \<^verbatim>\<open>createComponent\<close>: the value returned, the object
  the caller passed as \<^verbatim>\<open>data\<close> as the call leaves it (\<open>None\<close> when the caller
  passed \<^verbatim>\<open>undefined\<close>), and the calls made, in order.
\<close>

record outcome =
  node :: node_result
  data_after :: "vnodedata option"
  calls :: "call list"

definition createComponent ::
  "env \<Rightarrow> cref \<Rightarrow> vnodedata option \<Rightarrow> iref \<Rightarrow> vref list option \<Rightarrow> string option
     \<Rightarrow> error + outcome" where
  "createComponent E Ctor0 data0 context children0 tag0 =
     (if isUndef Ctor0 then Inr \<lparr> node = NoNode, data_after = data0, calls = [] \<rparr>
      else
        let baseCtor = base E context;
            (Ctor1, cs1) = (case Ctor0 of
                              CObject ob \<Rightarrow> (CFunction (Vue_extend E baseCtor ob), [Extend baseCtor ob])
                            | _ \<Rightarrow> (Ctor0, []))
        in case Ctor1 of
             CFunction F \<Rightarrow>
               (let (asyncF, resolved, cs2) =
                      (if cid F = None
                       then (Some F, resolveAsyncComponent E F baseCtor,
                             cs1 @ [ResolveAsyncComponent F baseCtor])
                       else (None, Some F, cs1))
                in case resolved of
                     None \<Rightarrow>
                       Inr \<lparr> node = AsyncPlaceholder F data0 context children0 tag0,
                             data_after = data0, calls = cs2 \<rparr>
                   | Some C0 \<Rightarrow>
                       (let d0 = (case data0 of None \<Rightarrow> empty_data | Some d \<Rightarrow> d);
                            C = C0\<lparr>options := resolveConstructorOptions E C0\<rparr>;
                            cs3 = cs2 @ [ResolveConstructorOptions C0]
                        in case (if model d0 \<noteq> None then transformModel (options C) d0
                                 else Inr d0) of
                             Inl e \<Rightarrow> Inl e
                           | Inr d1 \<Rightarrow>
                               (let pd = extractPropsFromVNodeData E d1 C tag0
                                in if functional (options C)
                                   then Inr \<lparr> node = Functional C pd d1 context children0,
                                              data_after = map_option (\<lambda>_. d1) data0,
                                              calls = cs3 \<rparr>
                                   else
                                     let ls = on d1;
                                         d2 = d1\<lparr>on := nativeOn d1\<rparr>;
                                         d3 = (if abstract (options C)
                                               then (if truthy (slot d2)
                                                     then empty_data\<lparr>slot := slot d2\<rparr>
                                                     else empty_data)
                                               else d2);
                                         d4 = installComponentHooks d3;
                                         name = (if truthy (o_name (options C))
                                                 then o_name (options C) else tag0);
                                         vn = \<lparr> tag = Some (''vue-component-''
                                                   @ (case cid C of None \<Rightarrow> ''undefined''
                                                      | Some c \<Rightarrow> show_nat c)
                                                   @ (if truthy name then ''-'' @ or_else name []
                                                      else [])),
                                                data = d4, children = None, vtext = None,
                                                elm = None, vcontext = context,
                                                componentOptions = Some \<lparr> Ctor = C,
                                                  propsData = pd, listeners = ls,
                                                  co_tag = tag0, co_children = children0 \<rparr>,
                                                asyncFactory = asyncF,
                                                componentInstance = None \<rparr>
                                     in Inr \<lparr> node = (if weex E \<and> isRecyclableComponent E vn
                                                      then RecyclableTemplate vn
                                                      else ComponentNode vn),
                                              data_after = map_option
                                                (\<lambda>_. if abstract (options C) then d2 else d4)
                                                data0,
                                              calls = cs3 \<rparr>)))
           | _ \<Rightarrow>
               Inr \<lparr> node = NoNode, data_after = data0,
                     calls = cs1 @ (if production E then []
                                    else [Warn (''Invalid Component definition: '' @ String Ctor1)
                                            context]) \<rparr>)"

subsection \<open>The lifecycle hooks\<close>

text \<open>\<^verbatim>\<open>InternalComponentOptions\<close>, the record handed to the constructor.\<close>

record internal_component_options =
  isComponent :: bool
  parentVnode :: vref
  parent :: "iref option"
  io_render :: "fref option"
  io_staticRenderFns :: "fref list option"

text \<open>An argument of a hook callback.\<close>

datatype arg = AVNode vref | ABool bool | AUndefined

text \<open>Calls of the hooks into other modules, and invocations of outside callbacks.\<close>

datatype event =
    New fn internal_component_options iref
  | Mount iref "nat option" bool
  | UpdateChildComponent "iref option" props_t listeners_t vref "vref list option"
  | CallHook iref string
  | QueueActivatedComponent iref
  | ActivateChildComponent iref bool
  | DeactivateChildComponent iref bool
  | DestroyCall iref
  | UserHookCall nat arg arg

text \<open>
  The state the hooks act on: the placeholder nodes and the component instances by
  reference, the binding \<^verbatim>\<open>activeInstance\<close> imported from the lifecycle module,
  the next unused instance reference, and the trace.
\<close>

record world =
  vnodes :: "vref \<Rightarrow> vnode"
  instances :: "iref \<Rightarrow> component"
  activeInstance :: "iref option"
  next_instance :: iref
  trace :: "event list"

definition emit :: "event \<Rightarrow> world \<Rightarrow> world" where
  "emit e w = w\<lparr>trace := trace w @ [e]\<rparr>"

text \<open>
  Modelled from the spec: \<^verbatim>\<open>new Ctor(options)\<close>, whose initialization sequence is
  not in this file. The result is a new instance, not yet mounted and not yet destroyed
  (spec 4.4, Create).
\<close>

definition construct :: "fn \<Rightarrow> internal_component_options \<Rightarrow> world \<Rightarrow> iref \<times> world" where
  "construct C opts w =
     (let i = next_instance w
      in (i, emit (New C opts i)
               (w\<lparr>instances := (instances w)(i := \<lparr> isMounted = False, isDestroyed = False \<rparr>),
                  next_instance := Suc i\<rparr>)))"

text \<open>
  Modelled from the spec: \<^verbatim>\<open>child.$mount(el, hydrating)\<close>, not in this file. The
  mounted flag is set only inside the insert hook (spec 3), so mounting leaves the
  flags as they are.
\<close>

definition mount :: "iref \<Rightarrow> nat option \<Rightarrow> bool \<Rightarrow> world \<Rightarrow> world" where
  "mount child el hydrating w = emit (Mount child el hydrating) w"

text \<open>
  Modelled from the spec: the instance update routine, not in this file. It pushes the
  new inputs, listeners, placeholder reference and children into the existing instance
  without reconstructing it (spec 4.4, Update).
\<close>

definition updateChildComponent ::
  "iref option \<Rightarrow> props_t \<Rightarrow> listeners_t \<Rightarrow> vref \<Rightarrow> vref list option \<Rightarrow> world \<Rightarrow> world" where
  "updateChildComponent child pd ls parentVn renderChildren w =
     emit (UpdateChildComponent child pd ls parentVn renderChildren) w"

text \<open>
  Modelled from the spec: the lifecycle notification dispatch
  \<^verbatim>\<open>(instance, name) -> void\<close>, not in this file (spec 6).
\<close>

definition callHook :: "iref \<Rightarrow> string \<Rightarrow> world \<Rightarrow> world" where
  "callHook vm h w = emit (CallHook vm h) w"

text \<open>
  Modelled from the spec: the enqueue operation of the activation queue, not in this
  file; the queue is drained by the scheduler after the patch pass (spec 5).
\<close>

definition queueActivatedComponent :: "iref \<Rightarrow> world \<Rightarrow> world" where
  "queueActivatedComponent vm w = emit (QueueActivatedComponent vm) w"

text \<open>
  Modelled from the spec: direct activation \<^verbatim>\<open>(instance, direct) -> void\<close>, not in
  this file (spec 6).
\<close>

definition activateChildComponent :: "iref \<Rightarrow> bool \<Rightarrow> world \<Rightarrow> world" where
  "activateChildComponent vm direct w = emit (ActivateChildComponent vm direct) w"

text \<open>
  Modelled from the spec: direct deactivation \<^verbatim>\<open>(instance, direct) -> void\<close>, not in
  this file. It suspends and does not destroy: the instance is retained, and the
  destroyed flag is set only inside teardown (spec 3 and 4.3).
\<close>

definition deactivateChildComponent :: "iref \<Rightarrow> bool \<Rightarrow> world \<Rightarrow> world" where
  "deactivateChildComponent vm direct w = emit (DeactivateChildComponent vm direct) w"

text \<open>
  Modelled from the spec: teardown, \<^verbatim>\<open>componentInstance.$destroy()\<close>, not in this
  file. It marks the instance destroyed (spec 3 and 4.4, Teardown).
\<close>

definition destroy_instance :: "iref \<Rightarrow> world \<Rightarrow> world" where
  "destroy_instance vm w =
     emit (DestroyCall vm)
       (w\<lparr>instances := (instances w)(vm := (instances w vm)\<lparr>isDestroyed := True\<rparr>)\<rparr>)"

definition createComponentInstanceForVnode ::
  "vref \<Rightarrow> iref option \<Rightarrow> world \<Rightarrow> error + iref \<times> world" where
  "createComponentInstanceForVnode vnode parent0 w =
     (let options0 = \<lparr> isComponent = True, parentVnode = vnode, parent = parent0,
                        io_render = None, io_staticRenderFns = None \<rparr>;
          options1 = (case inlineTemplate (data (vnodes w vnode)) of
                        None \<Rightarrow> options0
                      | Some t \<Rightarrow> options0\<lparr>io_render := Some (render t),
                                   io_staticRenderFns := Some (staticRenderFns t)\<rparr>)
      in case componentOptions (vnodes w vnode) of
           None \<Rightarrow> Inl TypeError
         | Some co \<Rightarrow> Inr (construct (Ctor co) options1 w))"

definition prepatch :: "vref \<Rightarrow> vref \<Rightarrow> world \<Rightarrow> error + world" where
  "prepatch oldVnode vnode w =
     (let options0 = componentOptions (vnodes w vnode);
          child = componentInstance (vnodes w oldVnode);
          w1 = w\<lparr>vnodes := (vnodes w)(vnode := (vnodes w vnode)\<lparr>componentInstance := child\<rparr>)\<rparr>
      in case options0 of
           None \<Rightarrow> Inl TypeError
         | Some opts \<Rightarrow>
             Inr (updateChildComponent child (propsData opts) (listeners opts) vnode
                    (co_children opts) w1))"

definition init :: "vref \<Rightarrow> bool \<Rightarrow> world \<Rightarrow> error + world" where
  "init vnode hydrating w =
     (if (case componentInstance (vnodes w vnode) of
            None \<Rightarrow> False
          | Some i \<Rightarrow> \<not> isDestroyed (instances w i) \<and> keepAlive (data (vnodes w vnode)))
      then prepatch vnode vnode w
      else case createComponentInstanceForVnode vnode (activeInstance w) w of
             Inl e \<Rightarrow> Inl e
           | Inr (child, w1) \<Rightarrow>
               (let w2 = w1\<lparr>vnodes := (vnodes w1)
                           (vnode := (vnodes w1 vnode)\<lparr>componentInstance := Some child\<rparr>)\<rparr>
                in Inr (mount child (if hydrating then elm (vnodes w2 vnode) else None)
                          hydrating w2)))"

definition insert_hook :: "vref \<Rightarrow> world \<Rightarrow> error + world" where
  "insert_hook vnode w =
     (let context = vcontext (vnodes w vnode)
      in case componentInstance (vnodes w vnode) of
           None \<Rightarrow> Inl TypeError
         | Some ci \<Rightarrow>
             (let w1 = (if \<not> isMounted (instances w ci)
                        then callHook ci ''mounted''
                               (w\<lparr>instances := (instances w)
                                    (ci := (instances w ci)\<lparr>isMounted := True\<rparr>)\<rparr>)
                        else w)
              in Inr (if keepAlive (data (vnodes w1 vnode))
                      then (if isMounted (instances w1 context)
                            then queueActivatedComponent ci w1
                            else activateChildComponent ci True w1)
                      else w1)))"

definition destroy :: "vref \<Rightarrow> world \<Rightarrow> error + world" where
  "destroy vnode w =
     (case componentInstance (vnodes w vnode) of
        None \<Rightarrow> Inl TypeError
      | Some ci \<Rightarrow>
          Inr (if \<not> isDestroyed (instances w ci)
               then (if \<not> keepAlive (data (vnodes w vnode))
                     then destroy_instance ci w
                     else deactivateChildComponent ci True w)
               else w))"

text \<open>The object \<^verbatim>\<open>componentVNodeHooks\<close>: each default hook, applied to the two
  arguments a callback receives. A member read on \<^verbatim>\<open>undefined\<close> raises.\<close>

definition is_truthy :: "arg \<Rightarrow> bool" where
  "is_truthy a = (case a of AVNode v \<Rightarrow> True | ABool b \<Rightarrow> b | AUndefined \<Rightarrow> False)"

fun componentVNodeHooks :: "hookname \<Rightarrow> arg \<Rightarrow> arg \<Rightarrow> world \<Rightarrow> error + world" where
  "componentVNodeHooks Init (AVNode v) b w = init v (is_truthy b) w"
| "componentVNodeHooks Prepatch (AVNode v1) (AVNode v2) w = prepatch v1 v2 w"
| "componentVNodeHooks Insert (AVNode v) b w = insert_hook v w"
| "componentVNodeHooks Destroy (AVNode v) b w = destroy v w"
| "componentVNodeHooks k a b w = Inl TypeError"

text \<open>
  Calling a callback of \<^verbatim>\<open>data.hook\<close> with two arguments. The closure of
  \<^verbatim>\<open>mergeHook\<close> runs \<^verbatim>\<open>f1(a, b)\<close>, then \<^verbatim>\<open>f2(a, b)\<close>; an exception of the
  first leaves the second uncalled. A callback from outside is recorded in the trace.
\<close>

fun call_hook :: "hookfn \<Rightarrow> arg \<Rightarrow> arg \<Rightarrow> world \<Rightarrow> error + world" where
  "call_hook (DefaultHook k) a b w = componentVNodeHooks k a b w"
| "call_hook (UserHook n m) a b w = Inr (emit (UserHookCall n a b) w)"
| "call_hook (MergedHook f1 f2) a b w =
     (case call_hook f1 a b w of Inl e \<Rightarrow> Inl e | Inr w1 \<Rightarrow> call_hook f2 a b w1)"

subsection \<open>Reading results\<close>

text \<open>The placeholder node a call of \<^verbatim>\<open>createComponent\<close> built itself, if it built one.\<close>

definition built_vnode :: "error + outcome \<Rightarrow> vnode option" where
  "built_vnode r =
     (case r of
        Inl e \<Rightarrow> None
      | Inr out \<Rightarrow>
          (case node out of
             ComponentNode v \<Rightarrow> Some v
           | RecyclableTemplate v \<Rightarrow> Some v
           | _ \<Rightarrow> None))"

text \<open>The member reads \<^verbatim>\<open>ls && ls[k]\<close>, \<^verbatim>\<open>ps && ps[k]\<close> and
  \<^verbatim>\<open>data.hook && data.hook[k]\<close>.\<close>

definition listener_of :: "listeners_t \<Rightarrow> string \<Rightarrow> listener option" where
  "listener_of ls k = (case ls of None \<Rightarrow> None | Some m \<Rightarrow> m k)"


definition hook_at :: "vnodedata \<Rightarrow> string \<Rightarrow> hookfn option" where
  "hook_at d k = (case hook d of None \<Rightarrow> None | Some h \<Rightarrow> h k)"

text \<open>The events a run added to the trace.\<close>

definition new_events :: "world \<Rightarrow> world \<Rightarrow> event list" where
  "new_events w w1 = drop (length (trace w)) (trace w1)"

definition built_options :: "error + outcome \<Rightarrow> component_options option" where
  "built_options r = (case built_vnode r of None \<Rightarrow> None | Some v \<Rightarrow> componentOptions v)"

definition built_listeners :: "error + outcome \<Rightarrow> listeners_t" where
  "built_listeners r = (case built_options r of None \<Rightarrow> None | Some co \<Rightarrow> listeners co)"

definition built_data :: "error + outcome \<Rightarrow> vnodedata option" where
  "built_data r = map_option data (built_vnode r)"

subsection \<open>Example inputs\<close>

text \<open>A constructor, an abstract constructor and an async factory.\<close>

definition child_ctor :: fn where
  "child_ctor = \<lparr> fid = 1, cid = Some 1,
     options = \<lparr> o_name = Some ''child'', o_model = None, functional = False,
                 abstract = False \<rparr> \<rparr>"

definition abstract_ctor :: fn where
  "abstract_ctor = \<lparr> fid = 2, cid = Some 2,
     options = \<lparr> o_name = Some ''keep-alive'', o_model = None, functional = False,
                 abstract = True \<rparr> \<rparr>"

definition factory :: fn where
  "factory = \<lparr> fid = 3, cid = None,
     options = \<lparr> o_name = None, o_model = None, functional = False, abstract = False \<rparr> \<rparr>"

text \<open>A development build in which async factories are not ready, the same build once
  the factory has resolved to \<open>child_ctor\<close>, and a production build. The extractor
  of the examples copies the attribute entries.\<close>

definition dev_env :: env where
  "dev_env = \<lparr> production = False, weex = False, base = (\<lambda>c. 0),
     Vue_extend = (\<lambda>b ob. child_ctor), resolveAsyncComponent = (\<lambda>f b. None),
     resolveConstructorOptions = options,
     extractPropsFromVNodeData = (\<lambda>d C t. attrs d),
     isRecyclableComponent = (\<lambda>v. False) \<rparr>"

definition ready_env :: env where
  "ready_env = dev_env\<lparr>resolveAsyncComponent := (\<lambda>f b. Some child_ctor)\<rparr>"

definition prod_env :: env where
  "prod_env = dev_env\<lparr>production := True\<rparr>"

text \<open>Data bags: a click listener; a v-model binding; a user hook under \<^verbatim>\<open>insert\<close>.\<close>

definition click_data :: vnodedata where
  "click_data = empty_data\<lparr>on := Some [''click'' \<mapsto> Single 7]\<rparr>"


definition user_insert_data :: vnodedata where
  "user_insert_data = empty_data\<lparr>hook := Some [''insert'' \<mapsto> UserHook 9 False]\<rparr>"

text \<open>A world with one keep-alive placeholder node that holds the live instance 1.\<close>

definition kept_node :: vnode where
  "kept_node = \<lparr> tag = Some ''vue-component-1-child'',
     data = empty_data\<lparr>keepAlive := True\<rparr>,
     children = None, vtext = None, elm = None, vcontext = 0,
     componentOptions = Some \<lparr> Ctor = child_ctor, propsData = None, listeners = None,
                               co_tag = None, co_children = None \<rparr>,
     asyncFactory = None, componentInstance = Some 1 \<rparr>"

definition kept_world :: world where
  "kept_world = \<lparr> vnodes = (\<lambda>v. kept_node),
     instances = (\<lambda>i. \<lparr> isMounted = False, isDestroyed = False \<rparr>),
     activeInstance = Some 0, next_instance = 2, trace = [] \<rparr>"

section \<open>Properties\<close>

subsection \<open>Hook installation\<close>

lemma key_inj: "key a = key b \<Longrightarrow> a = b"
  by (cases a; cases b) simp_all

lemma installLoop_outside: "s \<notin> key ` set ks \<Longrightarrow> installLoop ks h s = h s"
  by (induction ks arbitrary: h) (auto simp: Let_def)

lemma installLoop_inside:
  "distinct ks \<Longrightarrow> k \<in> set ks \<Longrightarrow>
     installLoop ks h (key k) =
       Some (case h (key k) of None \<Rightarrow> DefaultHook k
             | Some f \<Rightarrow> if f = DefaultHook k \<or> is_merged f then f
                         else MergedHook (DefaultHook k) f)"
proof (induction ks arbitrary: h)
  case Nil
  then show ?case by simp
next
  case (Cons x ks)
  show ?case
  proof (cases "x = k")
    case True
    then have "key k \<notin> key ` set ks"
      using Cons.prems(1) by (auto dest: key_inj)
    then show ?thesis
      using True by (auto simp: Let_def installLoop_outside mergeHook_def split: option.splits)
  next
    case False
    then have "k \<in> set ks" "distinct ks" "key x \<noteq> key k"
      using Cons.prems by (auto dest: key_inj)
    then show ?thesis
      using Cons.IH[OF \<open>distinct ks\<close> \<open>k \<in> set ks\<close>] by (simp add: Let_def)
  qed
qed

lemma installLoop_twice:
  assumes "distinct ks"
  shows "installLoop ks (installLoop ks h) = installLoop ks h"
proof
  fix s
  show "installLoop ks (installLoop ks h) s = installLoop ks h s"
  proof (cases "s \<in> key ` set ks")
    case False
    then show ?thesis by (simp add: installLoop_outside)
  next
    case True
    then obtain k where k: "k \<in> set ks" "s = key k" by auto
    show ?thesis
      unfolding k(2)
      by (simp add: installLoop_inside[OF assms k(1)] split: option.splits)
  qed
qed

lemma distinct_hooksToMerge: "distinct hooksToMerge"
  by (simp add: hooksToMerge_def)

lemma in_hooksToMerge: "k \<in> set hooksToMerge"
  by (cases k) (simp_all add: hooksToMerge_def)

lemma installComponentHooks_twice:
  "installComponentHooks (installComponentHooks d) = installComponentHooks d"
  by (simp add: installComponentHooks_def installLoop_twice distinct_hooksToMerge)

lemma hook_at_install:
  "hook_at (installComponentHooks d) (key k) =
     Some (case hook_at d (key k) of None \<Rightarrow> DefaultHook k
           | Some f \<Rightarrow> if f = DefaultHook k \<or> is_merged f then f
                       else MergedHook (DefaultHook k) f)"
  by (auto simp: hook_at_def installComponentHooks_def
        installLoop_inside[OF distinct_hooksToMerge in_hooksToMerge] split: option.splits)

lemma hook_at_install_other:
  "s \<notin> key ` set hooksToMerge \<Longrightarrow> hook_at (installComponentHooks d) s = hook_at d s"
  by (simp add: hook_at_def installComponentHooks_def installLoop_outside split: option.splits)

text \<open>
  Claim C4 (idempotent hook installation). An entry of \<^verbatim>\<open>data.hook\<close> under one of
  the four hook names whose callback carries the tag \<^verbatim>\<open>_merged\<close> is left as it is
  by \<^verbatim>\<open>installComponentHooks\<close>; installing a second time yields the very hook set
  of the first installation; and a user hook that the first installation wrapped is,
  after the second, still wrapped once: the merged callback is not wrapped again.
\<close>

theorem install_hooks_idempotent:
  "(hook_at d (key k) = Some f \<and> is_merged f \<longrightarrow>
      hook_at (installComponentHooks d) (key k) = Some f) \<and>
   installComponentHooks (installComponentHooks d) = installComponentHooks d \<and>
   (hook_at d (key k) = Some u \<and> u \<noteq> DefaultHook k \<and> \<not> is_merged u \<longrightarrow>
      hook_at (installComponentHooks (installComponentHooks d)) (key k) =
        Some (MergedHook (DefaultHook k) u))"
  by (simp add: installComponentHooks_twice hook_at_install)

theorem install_hooks_idempotent_witness:
  "hook_at (installComponentHooks user_insert_data) (key Insert)
     = Some (MergedHook (DefaultHook Insert) (UserHook 9 False)) \<and>
   is_merged (MergedHook (DefaultHook Insert) (UserHook 9 False)) \<and>
   hook_at (installComponentHooks (installComponentHooks user_insert_data)) (key Insert)
     = Some (MergedHook (DefaultHook Insert) (UserHook 9 False)) \<and>
   hook_at user_insert_data (key Insert) = Some (UserHook 9 False) \<and>
   UserHook 9 False \<noteq> DefaultHook Insert \<and> \<not> is_merged (UserHook 9 False)"
proof -
  have h: "hook_at (installComponentHooks user_insert_data) (key Insert)
     = Some (MergedHook (DefaultHook Insert) (UserHook 9 False))"
    by (simp add: hook_at_def installComponentHooks_def user_insert_data_def empty_data_def
          hooksToMerge_def mergeHook_def Let_def)
  have g: "hook_at user_insert_data (key Insert) = Some (UserHook 9 False)"
    by (simp add: hook_at_def user_insert_data_def empty_data_def)
  show ?thesis
    using h g
      install_hooks_idempotent[of "installComponentHooks user_insert_data" Insert
        "MergedHook (DefaultHook Insert) (UserHook 9 False)"]
      install_hooks_idempotent[of user_insert_data Insert _ "UserHook 9 False"]
    by simp
qed

text \<open>
  Claim C5 (merge ordering). When \<^verbatim>\<open>data.hook\<close> carries, under one of the four hook
  names, a callback that is neither the default hook of that name nor tagged as merged,
  installation replaces it by \<^verbatim>\<open>mergeHook(default, user)\<close>, which is tagged; calling
  that callback with \<open>(a, b)\<close> runs the default hook with \<open>(a, b)\<close> and then, on the
  state the default hook leaves, the user hook with \<open>(a, b)\<close>, each once. If the
  default hook raises, the user hook is not reached.
\<close>

theorem merge_ordering:
  assumes "hook_at d (key k) = Some u" and "u \<noteq> DefaultHook k" and "\<not> is_merged u"
  shows "hook_at (installComponentHooks d) (key k) = Some (mergeHook (DefaultHook k) u) \<and>
     is_merged (mergeHook (DefaultHook k) u) \<and>
     call_hook (mergeHook (DefaultHook k) u) a b w =
       (case componentVNodeHooks k a b w of
          Inl e \<Rightarrow> Inl e
        | Inr w1 \<Rightarrow> call_hook u a b w1)"
  using assms by (simp add: hook_at_install mergeHook_def)

theorem merge_ordering_witness:
  "hook_at user_insert_data (key Insert) = Some (UserHook 9 False) \<and>
   UserHook 9 False \<noteq> DefaultHook Insert \<and> \<not> is_merged (UserHook 9 False) \<and>
   hook_at (installComponentHooks user_insert_data) (key Insert)
     = Some (mergeHook (DefaultHook Insert) (UserHook 9 False)) \<and>
   call_hook (mergeHook (DefaultHook Insert) (UserHook 9 False)) (AVNode 0) AUndefined kept_world
     = Inr (kept_world\<lparr>
         instances := (instances kept_world)(1 := \<lparr> isMounted = True, isDestroyed = False \<rparr>),
         trace := [CallHook 1 ''mounted'', ActivateChildComponent 1 True,
                   UserHookCall 9 (AVNode 0) AUndefined]\<rparr>)"
proof -
  have h: "hook_at user_insert_data (key Insert) = Some (UserHook 9 False)"
    by (simp add: hook_at_def user_insert_data_def empty_data_def)
  have i: "insert_hook 0 kept_world = Inr (kept_world\<lparr>
         instances := (instances kept_world)(1 := \<lparr> isMounted = True, isDestroyed = False \<rparr>),
         trace := [CallHook 1 ''mounted'', ActivateChildComponent 1 True]\<rparr>)"
    by (simp add: insert_hook_def kept_world_def kept_node_def empty_data_def callHook_def
          activateChildComponent_def emit_def Let_def)
  show ?thesis
    using merge_ordering[OF h, of "AVNode 0" AUndefined kept_world] h i
    by (simp add: emit_def)
qed

subsection \<open>The lifecycle hooks\<close>

text \<open>
  Claim C1 (keep-alive round trip). On a node whose data has \<^verbatim>\<open>keepAlive\<close> set and
  whose instance is not destroyed, the destroy hook returns normally, makes exactly one
  call, \<^verbatim>\<open>deactivateChildComponent(instance, true)\<close>, and leaves the instance not
  destroyed. After it, \<^verbatim>\<open>init\<close> on any keep-alive node that holds this instance (the
  node itself is one) is \<^verbatim>\<open>prepatch(node, node)\<close>: when it returns, the node holds
  the same instance, no constructor was called and no instance reference was allocated.
  It returns whenever the node has component options.
\<close>

theorem keep_alive_round_trip:
  assumes "componentInstance (vnodes w v) = Some i"
    and "keepAlive (data (vnodes w v))"
    and "\<not> isDestroyed (instances w i)"
  shows "\<exists>w1. destroy v w = Inr w1 \<and>
     \<not> isDestroyed (instances w1 i) \<and>
     new_events w w1 = [DeactivateChildComponent i True] \<and>
     componentInstance (vnodes w1 v) = Some i \<and> keepAlive (data (vnodes w1 v)) \<and>
     (\<forall>v' h. componentInstance (vnodes w1 v') = Some i \<and> keepAlive (data (vnodes w1 v')) \<longrightarrow>
        init v' h w1 = prepatch v' v' w1 \<and>
        (componentOptions (vnodes w1 v') \<noteq> None \<longrightarrow> (\<exists>w2. init v' h w1 = Inr w2)) \<and>
        (\<forall>w2. init v' h w1 = Inr w2 \<longrightarrow>
           componentInstance (vnodes w2 v') = Some i \<and>
           instances w2 = instances w1 \<and>
           next_instance w2 = next_instance w1 \<and>
           (\<forall>C opts j. New C opts j \<notin> set (new_events w1 w2))))"
  using assms
  by (auto simp: destroy_def deactivateChildComponent_def emit_def init_def prepatch_def
      updateChildComponent_def new_events_def Let_def split: option.splits)

theorem keep_alive_round_trip_witness:
  "componentInstance (vnodes kept_world 0) = Some 1 \<and>
   keepAlive (data (vnodes kept_world 0)) \<and>
   \<not> isDestroyed (instances kept_world 1) \<and>
   (\<exists>w1. destroy 0 kept_world = Inr w1 \<and>
      \<not> isDestroyed (instances w1 1) \<and>
      new_events kept_world w1 = [DeactivateChildComponent 1 True] \<and>
      init 0 False w1 = prepatch 0 0 w1 \<and>
      (\<exists>w2. init 0 False w1 = Inr w2))"
proof -
  have h1: "componentInstance (vnodes kept_world 0) = Some 1"
    by (simp add: kept_world_def kept_node_def)
  have h2: "keepAlive (data (vnodes kept_world 0))"
    by (simp add: kept_world_def kept_node_def empty_data_def)
  have h3: "\<not> isDestroyed (instances kept_world 1)"
    by (simp add: kept_world_def)
  from keep_alive_round_trip[OF h1 h2 h3] obtain w1 where w1:
    "destroy 0 kept_world = Inr w1" "\<not> isDestroyed (instances w1 1)"
    "new_events kept_world w1 = [DeactivateChildComponent 1 True]"
    "componentInstance (vnodes w1 0) = Some 1" "keepAlive (data (vnodes w1 0))"
    "\<forall>v' h. componentInstance (vnodes w1 v') = Some 1 \<and> keepAlive (data (vnodes w1 v')) \<longrightarrow>
        init v' h w1 = prepatch v' v' w1 \<and>
        (componentOptions (vnodes w1 v') \<noteq> None \<longrightarrow> (\<exists>w2. init v' h w1 = Inr w2)) \<and>
        (\<forall>w2. init v' h w1 = Inr w2 \<longrightarrow>
           componentInstance (vnodes w2 v') = Some 1 \<and>
           instances w2 = instances w1 \<and>
           next_instance w2 = next_instance w1 \<and>
           (\<forall>C opts j. New C opts j \<notin> set (new_events w1 w2)))"
    by blast
  have co: "componentOptions (vnodes w1 0) \<noteq> None"
    using w1(1) by (auto simp: destroy_def deactivateChildComponent_def emit_def
        kept_world_def kept_node_def split: option.splits if_splits)
  from w1(6) w1(4) w1(5) co have "init 0 False w1 = prepatch 0 0 w1"
    and "\<exists>w2. init 0 False w1 = Inr w2" by blast+
  with h1 h2 h3 w1 show ?thesis by blast
qed

text \<open>
  Claim C2 (mounted-once). When the node holds an instance, two successive calls of the
  insert hook both return; after the first the instance is mounted; the first dispatched
  \<^verbatim>\<open>mounted\<close> for it once if it was not mounted before and not at all otherwise; the
  second dispatches no \<^verbatim>\<open>mounted\<close> notification and writes no instance flag. The
  first call changes no other instance. On a node without an instance the hook raises
  and dispatches nothing. The hooks \<^verbatim>\<open>prepatch\<close> and \<^verbatim>\<open>destroy\<close> leave
  every \<^verbatim>\<open>_isMounted\<close> flag as it is, and \<^verbatim>\<open>init\<close> turns none to true.
\<close>

theorem mounted_once:
  "(componentInstance (vnodes w v) = Some i \<longrightarrow>
     (\<exists>w1 w2. insert_hook v w = Inr w1 \<and> insert_hook v w1 = Inr w2 \<and>
        isMounted (instances w1 i) \<and>
        count_list (new_events w w1) (CallHook i ''mounted'') =
          (if isMounted (instances w i) then 0 else 1) \<and>
        (\<forall>j. CallHook j ''mounted'' \<notin> set (new_events w1 w2)) \<and>
        instances w2 = instances w1 \<and>
        (\<forall>j. j \<noteq> i \<longrightarrow> instances w1 j = instances w j))) \<and>
   (componentInstance (vnodes w v) = None \<longrightarrow> insert_hook v w = Inl TypeError) \<and>
   (\<forall>w' j. prepatch v v' w = Inr w' \<longrightarrow> isMounted (instances w' j) = isMounted (instances w j)) \<and>
   (\<forall>w' j. destroy v w = Inr w' \<longrightarrow> isMounted (instances w' j) = isMounted (instances w j)) \<and>
   (\<forall>w' j. init v h w = Inr w' \<longrightarrow> isMounted (instances w' j) \<longrightarrow> isMounted (instances w j))"
  by (auto simp: insert_hook_def callHook_def queueActivatedComponent_def
      activateChildComponent_def emit_def new_events_def Let_def prepatch_def
      updateChildComponent_def destroy_def destroy_instance_def deactivateChildComponent_def
      init_def createComponentInstanceForVnode_def construct_def mount_def
      split: option.splits if_splits)

theorem mounted_once_witness:
  "componentInstance (vnodes kept_world 0) = Some 1 \<and>
   \<not> isMounted (instances kept_world 1) \<and>
   (\<exists>w1 w2. insert_hook 0 kept_world = Inr w1 \<and> insert_hook 0 w1 = Inr w2 \<and>
      isMounted (instances w1 1) \<and>
      count_list (new_events kept_world w1) (CallHook 1 ''mounted'') = 1 \<and>
      CallHook 1 ''mounted'' \<notin> set (new_events w1 w2))"
proof -
  have h1: "componentInstance (vnodes kept_world 0) = Some 1"
    by (simp add: kept_world_def kept_node_def)
  have h2: "\<not> isMounted (instances kept_world 1)"
    by (simp add: kept_world_def)
  from mounted_once[of kept_world 0 1] h1 obtain w1 w2 where
    "insert_hook 0 kept_world = Inr w1" "insert_hook 0 w1 = Inr w2"
    "isMounted (instances w1 1)"
    "count_list (new_events kept_world w1) (CallHook 1 ''mounted'') =
       (if isMounted (instances kept_world 1) then 0 else 1)"
    "\<forall>j. CallHook j ''mounted'' \<notin> set (new_events w1 w2)"
    by blast
  with h1 h2 show ?thesis by auto
qed

text \<open>
  Claim C3 (instance identity across update). When the new node has component options,
  \<^verbatim>\<open>prepatch(old, new)\<close> returns; afterwards the new node's \<^verbatim>\<open>componentInstance\<close> is
  the old node's; every other node, every instance and the allocation counter are
  unchanged, so no instance was created or destroyed; and the only call made is
  \<^verbatim>\<open>updateChildComponent\<close> with the instance, the new inputs, the new listeners, the
  new node and the new children.
\<close>

theorem prepatch_instance_identity:
  assumes "componentOptions (vnodes w n2) = Some opts"
  shows "\<exists>w1. prepatch n1 n2 w = Inr w1 \<and>
     componentInstance (vnodes w1 n2) = componentInstance (vnodes w n1) \<and>
     (\<forall>v. v \<noteq> n2 \<longrightarrow> vnodes w1 v = vnodes w v) \<and>
     instances w1 = instances w \<and>
     next_instance w1 = next_instance w \<and>
     new_events w w1 =
       [UpdateChildComponent (componentInstance (vnodes w n1)) (propsData opts)
          (listeners opts) n2 (co_children opts)]"
  using assms
  by (simp add: prepatch_def updateChildComponent_def emit_def new_events_def Let_def)

theorem prepatch_instance_identity_witness:
  "componentOptions (vnodes kept_world 5) =
     Some \<lparr> Ctor = child_ctor, propsData = None, listeners = None,
            co_tag = None, co_children = None \<rparr> \<and>
   (\<exists>w1. prepatch 0 5 kept_world = Inr w1 \<and>
      componentInstance (vnodes w1 5) = Some 1 \<and>
      instances w1 = instances kept_world \<and>
      new_events kept_world w1 = [UpdateChildComponent (Some 1) None None 5 None])"
proof -
  have h: "componentOptions (vnodes kept_world 5) =
     Some \<lparr> Ctor = child_ctor, propsData = None, listeners = None,
            co_tag = None, co_children = None \<rparr>"
    by (simp add: kept_world_def kept_node_def)
  have c: "componentInstance (vnodes kept_world 0) = Some 1"
    by (simp add: kept_world_def kept_node_def)
  show ?thesis
    using prepatch_instance_identity[OF h, of 0] h c by auto
qed

subsection \<open>The v-model transform\<close>


lemma transformModel_total:
  "model d = Some m \<Longrightarrow> \<exists>d1. transformModel opts d = Inr d1"
  by (simp add: transformModel_def Let_def)

lemma transform_step_total:
  "\<exists>d1. (if model d \<noteq> None then transformModel opts d else Inr d) = Inr d1"
  by (cases "model d") (simp_all add: transformModel_total)



subsection \<open>The placeholder builder\<close>

lemma built_vnode_Inr:
  "built_vnode (Inr \<lparr> node = (if c then RecyclableTemplate v else ComponentNode v),
                       data_after = x, calls = y \<rparr>) = Some v"
  by (simp add: built_vnode_def)

text \<open>The node built on the normal path: the reference is a function that is a
  constructor, or an async factory that has resolved to one, and the constructor is not
  functional.\<close>

lemma createComponent_resolved:
  assumes r: "(if cid F = None then resolveAsyncComponent E F (base E ctx) else Some F) = Some C0"
    and o: "resolveConstructorOptions E C0 = opts"
    and t: "(if model (case data0 of None \<Rightarrow> empty_data | Some d \<Rightarrow> d) \<noteq> None
             then transformModel opts (case data0 of None \<Rightarrow> empty_data | Some d \<Rightarrow> d)
             else Inr (case data0 of None \<Rightarrow> empty_data | Some d \<Rightarrow> d)) = Inr d1"
    and f: "\<not> functional opts"
  shows "built_vnode (createComponent E (CFunction F) data0 ctx ch tg) =
     Some \<lparr> tag = Some (''vue-component-''
                   @ (case cid C0 of None \<Rightarrow> ''undefined'' | Some c \<Rightarrow> show_nat c)
                   @ (if truthy (if truthy (o_name opts) then o_name opts else tg)
                      then ''-'' @ or_else (if truthy (o_name opts) then o_name opts else tg) []
                      else [])),
            data = installComponentHooks
                     (if abstract opts
                      then (if truthy (slot d1) then empty_data\<lparr>slot := slot d1\<rparr> else empty_data)
                      else d1\<lparr>on := nativeOn d1\<rparr>),
            children = None, vtext = None, elm = None, vcontext = ctx,
            componentOptions = Some \<lparr> Ctor = C0\<lparr>options := opts\<rparr>,
              propsData = extractPropsFromVNodeData E d1 (C0\<lparr>options := opts\<rparr>) tg,
              listeners = on d1, co_tag = tg, co_children = ch \<rparr>,
            asyncFactory = (if cid F = None then Some F else None),
            componentInstance = None \<rparr>"
proof -
  define d0 where "d0 = (case data0 of None \<Rightarrow> empty_data | Some d \<Rightarrow> d)"
  have t': "(if model d0 \<noteq> None then transformModel opts d0 else Inr d0) = Inr d1"
    using t unfolding d0_def by simp
  have nf: "functional opts = False" using f by simp
  have res: "(if cid F = None
       then (Some F, resolveAsyncComponent E F (base E ctx),
             [] @ [ResolveAsyncComponent F (base E ctx)])
       else (None, Some F, [])) =
      (if cid F = None then Some F else None, Some C0,
       if cid F = None then [ResolveAsyncComponent F (base E ctx)] else [])"
    using r by (cases "cid F") simp_all
  show ?thesis
    unfolding createComponent_def
    apply (simp only: cref.case isUndef_def cref.distinct simp_thms if_False Let_def
       prod.case res option.case d0_def[symmetric] o)
    apply (simp add: t' nf built_vnode_Inr del: not_None_eq split del: if_split cong: if_cong)
    done
qed

lemma createComponent_pending:
  assumes "cid F = None" and "resolveAsyncComponent E F (base E ctx) = None"
  shows "createComponent E (CFunction F) d ctx ch tg =
        Inr \<lparr> node = AsyncPlaceholder F d ctx ch tg, data_after = d,
              calls = [ResolveAsyncComponent F (base E ctx)] \<rparr>"
  using assms by (simp add: createComponent_def isUndef_def Let_def)

lemma on_installComponentHooks: "on (installComponentHooks d) = on d"
  by (simp add: installComponentHooks_def)

text \<open>
  Claim C6 (async two-pass resolution). For a function without \<^verbatim>\<open>cid\<close>: when
  \<^verbatim>\<open>resolveAsyncComponent\<close> returns \<^verbatim>\<open>undefined\<close>, \<^verbatim>\<open>createComponent\<close> returns
  \<^verbatim>\<open>createAsyncPlaceholder\<close> of that factory and the untouched arguments, having made
  no other call; when it returns a constructor that is not functional,
  \<^verbatim>\<open>createComponent\<close> builds a component node whose \<^verbatim>\<open>asyncFactory\<close> is the factory
  and whose constructor is the resolved one, and this node is, but for the
  \<^verbatim>\<open>asyncFactory\<close> slot, the node built from the resolved constructor itself.
\<close>

theorem async_two_pass:
  assumes "cid F = None"
  shows "(resolveAsyncComponent E F (base E ctx) = None \<longrightarrow>
      createComponent E (CFunction F) d ctx ch tg =
        Inr \<lparr> node = AsyncPlaceholder F d ctx ch tg, data_after = d,
              calls = [ResolveAsyncComponent F (base E ctx)] \<rparr>) \<and>
    (\<forall>C. resolveAsyncComponent E F (base E ctx) = Some C \<and>
          \<not> functional (resolveConstructorOptions E C) \<longrightarrow>
      (\<exists>vn co. built_vnode (createComponent E (CFunction F) d ctx ch tg) = Some vn \<and>
         asyncFactory vn = Some F \<and>
         componentOptions vn = Some co \<and>
         Ctor co = C\<lparr>options := resolveConstructorOptions E C\<rparr> \<and>
         (cid C \<noteq> None \<longrightarrow>
            built_vnode (createComponent E (CFunction C) d ctx ch tg)
              = Some (vn\<lparr>asyncFactory := None\<rparr>))))"
proof (intro conjI allI impI)
  assume "resolveAsyncComponent E F (base E ctx) = None"
  with assms show "createComponent E (CFunction F) d ctx ch tg =
        Inr \<lparr> node = AsyncPlaceholder F d ctx ch tg, data_after = d,
              calls = [ResolveAsyncComponent F (base E ctx)] \<rparr>"
    by (rule createComponent_pending)
next
  fix C
  assume a: "resolveAsyncComponent E F (base E ctx) = Some C \<and>
          \<not> functional (resolveConstructorOptions E C)"
  obtain d1 where t: "(if model (case d of None \<Rightarrow> empty_data | Some d \<Rightarrow> d) \<noteq> None
             then transformModel (resolveConstructorOptions E C)
                    (case d of None \<Rightarrow> empty_data | Some d \<Rightarrow> d)
             else Inr (case d of None \<Rightarrow> empty_data | Some d \<Rightarrow> d)) = Inr d1"
    using transform_step_total by blast
  have r1: "(if cid F = None then resolveAsyncComponent E F (base E ctx) else Some F) = Some C"
    using assms a by simp
  note b1 = createComponent_resolved[OF r1 refl t, of ch tg]
  have b2: "cid C \<noteq> None \<Longrightarrow>
      built_vnode (createComponent E (CFunction C) d ctx ch tg) =
        Some (the (built_vnode (createComponent E (CFunction F) d ctx ch tg))
               \<lparr>asyncFactory := None\<rparr>)"
  proof -
    assume c: "cid C \<noteq> None"
    then have r2: "(if cid C = None then resolveAsyncComponent E C (base E ctx) else Some C)
        = Some C" by auto
    show ?thesis
      using a c assms
      by (simp add: createComponent_resolved[OF r2 refl t] b1)
  qed
  from a b1 assms obtain vn where vn:
    "built_vnode (createComponent E (CFunction F) d ctx ch tg) = Some vn"
    "asyncFactory vn = Some F"
    "componentOptions vn = Some \<lparr> Ctor = C\<lparr>options := resolveConstructorOptions E C\<rparr>,
        propsData = extractPropsFromVNodeData E d1
                      (C\<lparr>options := resolveConstructorOptions E C\<rparr>) tg,
        listeners = on d1, co_tag = tg, co_children = ch \<rparr>"
    by simp
  show "\<exists>vn co. built_vnode (createComponent E (CFunction F) d ctx ch tg) = Some vn \<and>
         asyncFactory vn = Some F \<and>
         componentOptions vn = Some co \<and>
         Ctor co = C\<lparr>options := resolveConstructorOptions E C\<rparr> \<and>
         (cid C \<noteq> None \<longrightarrow>
            built_vnode (createComponent E (CFunction C) d ctx ch tg)
              = Some (vn\<lparr>asyncFactory := None\<rparr>))"
    using vn b2 by (intro exI[of _ vn]) simp
qed

theorem async_two_pass_witness:
  "cid factory = None \<and>
   resolveAsyncComponent dev_env factory (base dev_env 0) = None \<and>
   createComponent dev_env (CFunction factory) None 0 None (Some ''lazy'') =
     Inr \<lparr> node = AsyncPlaceholder factory None 0 None (Some ''lazy''), data_after = None,
           calls = [ResolveAsyncComponent factory 0] \<rparr> \<and>
   resolveAsyncComponent ready_env factory (base ready_env 0) = Some child_ctor \<and>
   \<not> functional (resolveConstructorOptions ready_env child_ctor) \<and>
   map_option asyncFactory
     (built_vnode (createComponent ready_env (CFunction factory) None 0 None (Some ''lazy'')))
     = Some (Some factory)"
proof -
  have h0: "cid factory = None"
    by (simp add: factory_def)
  have h1: "resolveAsyncComponent dev_env factory (base dev_env 0) = None"
    and h2: "resolveAsyncComponent ready_env factory (base ready_env 0) = Some child_ctor"
    and h3: "\<not> functional (resolveConstructorOptions ready_env child_ctor)"
    and h4: "base dev_env 0 = 0"
    by (simp_all add: dev_env_def ready_env_def child_ctor_def)
  show ?thesis
    using h0 h1 h2 h3 h4
      async_two_pass[OF h0, of dev_env 0 None None "Some ''lazy''"]
      async_two_pass[OF h0, of ready_env 0 None None "Some ''lazy''"]
    by auto
qed

text \<open>
  Claim C7, as amended (listeners are separated before the abstract strip). For a
  constructor whose options are abstract and not functional, the listeners of
  \<^verbatim>\<open>componentOptions\<close> are \<^verbatim>\<open>data.on\<close> as it stands after the v-model transform and
  before the strip; the node's data bag is a fresh bag that keeps a truthy \<^verbatim>\<open>slot\<close>
  and receives the hooks, so its own \<^verbatim>\<open>on\<close> is \<^verbatim>\<open>undefined\<close>.
\<close>

theorem abstract_listeners_before_strip:
  assumes c: "cid C = Some c"
    and o: "resolveConstructorOptions E C = opts"
    and a: "abstract opts"
    and nf: "\<not> functional opts"
  shows "\<exists>vn co d1.
     (if model d \<noteq> None then transformModel opts d else Inr d) = Inr d1 \<and>
     built_vnode (createComponent E (CFunction C) (Some d) ctx ch tg) = Some vn \<and>
     componentOptions vn = Some co \<and>
     listeners co = on d1 \<and>
     (model d = None \<longrightarrow> listeners co = on d) \<and>
     data vn = installComponentHooks
                 (if truthy (slot d1) then empty_data\<lparr>slot := slot d1\<rparr> else empty_data) \<and>
     on (data vn) = None"
proof -
  obtain d1 where t0: "(if model d \<noteq> None then transformModel opts d else Inr d) = Inr d1"
    using transform_step_total by blast
  then have t: "(if model (case Some d of None \<Rightarrow> empty_data | Some d \<Rightarrow> d) \<noteq> None
             then transformModel opts (case Some d of None \<Rightarrow> empty_data | Some d \<Rightarrow> d)
             else Inr (case Some d of None \<Rightarrow> empty_data | Some d \<Rightarrow> d)) = Inr d1"
    by (simp only: option.case)
  have r: "(if cid C = None then resolveAsyncComponent E C (base E ctx) else Some C) = Some C"
    using c by simp
  let ?co = "\<lparr> Ctor = C\<lparr>options := opts\<rparr>,
              propsData = extractPropsFromVNodeData E d1 (C\<lparr>options := opts\<rparr>) tg,
              listeners = on d1, co_tag = tg, co_children = ch \<rparr>"
  from createComponent_resolved[OF r o t nf, of ch tg] a obtain vn where vn:
    "built_vnode (createComponent E (CFunction C) (Some d) ctx ch tg) = Some vn"
    "componentOptions vn = Some ?co"
    "data vn = installComponentHooks
                 (if truthy (slot d1) then empty_data\<lparr>slot := slot d1\<rparr> else empty_data)"
    by simp
  have e: "on (data vn) = None"
    by (simp add: vn(3) on_installComponentHooks empty_data_def)
  have l: "listeners ?co = on d1"
    by simp
  have m: "model d = None \<longrightarrow> listeners ?co = on d"
    using t0 by auto
  show ?thesis
    by (rule exI[of _ vn], rule exI[of _ ?co], rule exI[of _ d1])
       (intro conjI t0 vn l m e)
qed

theorem abstract_listeners_before_strip_witness:
  "cid abstract_ctor = Some 2 \<and>
   abstract (resolveConstructorOptions dev_env abstract_ctor) \<and>
   \<not> functional (resolveConstructorOptions dev_env abstract_ctor) \<and>
   built_listeners (createComponent dev_env (CFunction abstract_ctor) (Some click_data) 0 None None)
     = on click_data"
proof -
  have c: "cid abstract_ctor = Some 2"
    and a: "abstract (resolveConstructorOptions dev_env abstract_ctor)"
    and nf: "\<not> functional (resolveConstructorOptions dev_env abstract_ctor)"
    by (simp_all add: abstract_ctor_def dev_env_def)
  have m: "model click_data = None"
    by (simp add: click_data_def empty_data_def)
  from abstract_listeners_before_strip[OF c refl a nf, of click_data 0 None None] m
  have "built_listeners
          (createComponent dev_env (CFunction abstract_ctor) (Some click_data) 0 None None)
        = on click_data"
    by (auto simp: built_listeners_def built_options_def)
  with c a nf show ?thesis by simp
qed

theorem abstract_listeners_counterexample:
  "listener_of
     (built_listeners
        (createComponent dev_env (CFunction abstract_ctor) (Some click_data) 0 None None))
     ''click'' = Some (Single 7) \<and>
   map_option on
     (built_data
        (createComponent dev_env (CFunction abstract_ctor) (Some click_data) 0 None None))
     = Some None \<and>
   abstract (resolveConstructorOptions dev_env abstract_ctor)"
proof -
  have c: "(if cid abstract_ctor = None
            then resolveAsyncComponent dev_env abstract_ctor (base dev_env 0)
            else Some abstract_ctor) = Some abstract_ctor"
    by (simp add: abstract_ctor_def)
  have a: "abstract (resolveConstructorOptions dev_env abstract_ctor)"
    and nf: "\<not> functional (resolveConstructorOptions dev_env abstract_ctor)"
    by (simp_all add: abstract_ctor_def dev_env_def)
  have t: "(if model (case Some click_data of None \<Rightarrow> empty_data | Some d \<Rightarrow> d) \<noteq> None
            then transformModel (resolveConstructorOptions dev_env abstract_ctor)
                   (case Some click_data of None \<Rightarrow> empty_data | Some d \<Rightarrow> d)
            else Inr (case Some click_data of None \<Rightarrow> empty_data | Some d \<Rightarrow> d))
           = Inr click_data"
    by (simp add: click_data_def empty_data_def)
  note b = createComponent_resolved[OF c refl t nf, of None None]
  have l: "listener_of (on click_data) ''click'' = Some (Single 7)"
    by (simp add: listener_of_def click_data_def)
  show ?thesis
    using a l
    by (simp add: built_listeners_def built_options_def built_data_def b
          on_installComponentHooks empty_data_def)
qed

text \<open>
  Claim C8, as amended (invalid definition). For a reference that is neither
  \<^verbatim>\<open>undefined\<close> nor \<^verbatim>\<open>null\<close>, nor an object, nor a function, \<^verbatim>\<open>createComponent\<close>
  returns no node, leaves the data as it was passed (no hook is installed) and makes
  no call except, outside a production build, the warning
  \<^verbatim>\<open>Invalid Component definition: \<close> followed by the reference as a string. In a
  production build it reports nothing.
\<close>

theorem invalid_definition:
  assumes "\<not> isUndef c" and "\<forall>ob. c \<noteq> CObject ob" and "\<forall>F. c \<noteq> CFunction F"
  shows "createComponent E c d ctx ch tg =
     Inr \<lparr> node = NoNode, data_after = d,
           calls = (if production E then []
                    else [Warn (''Invalid Component definition: '' @ String c) ctx]) \<rparr>"
  using assms by (cases c) (simp_all add: createComponent_def isUndef_def)

theorem invalid_definition_witness:
  "\<not> isUndef (CStr ''widget'') \<and> (\<forall>ob. CStr ''widget'' \<noteq> CObject ob) \<and>
   (\<forall>F. CStr ''widget'' \<noteq> CFunction F) \<and>
   createComponent dev_env (CStr ''widget'') (Some click_data) 0 None None =
     Inr \<lparr> node = NoNode, data_after = Some click_data,
           calls = [Warn ''Invalid Component definition: widget'' 0] \<rparr>"
proof -
  have h1: "\<not> isUndef (CStr ''widget'')" by (simp add: isUndef_def)
  have h2: "\<forall>ob. CStr ''widget'' \<noteq> CObject ob" by simp
  have h3: "\<forall>F. CStr ''widget'' \<noteq> CFunction F" by simp
  show ?thesis
    using invalid_definition[OF h1 h2 h3, of dev_env "Some click_data" 0 None None] h1
    by (simp add: dev_env_def)
qed

theorem invalid_definition_production_counterexample:
  "createComponent prod_env (CStr ''widget'') None 0 None None =
     Inr \<lparr> node = NoNode, data_after = None, calls = [] \<rparr>"
  by (simp add: createComponent_def isUndef_def prod_env_def dev_env_def)



text \<open>
  Claim C10 (undefined reference). When the component reference is \<^verbatim>\<open>undefined\<close>,
  \<^verbatim>\<open>createComponent\<close> returns no node, makes no call to another module (no warning,
  no constructor extension, no async resolution, no option resolution) and leaves the
  data as it was passed, whatever the environment. The same holds for \<^verbatim>\<open>null\<close>.
\<close>

theorem undefined_reference_short_circuit:
  "createComponent E CUndefined d ctx ch tg =
     Inr \<lparr> node = NoNode, data_after = d, calls = [] \<rparr> \<and>
   createComponent E CNull d ctx ch tg =
     Inr \<lparr> node = NoNode, data_after = d, calls = [] \<rparr>"
  by (simp add: createComponent_def isUndef_def)

end
